theory Spec2Isabelle
  imports Main
begin

section \<open>Movie search application: data model\<close>

text \<open>
  The repository is a React front end (the \<open>App\<close> component) and a module of two
  functions over a document store (\<open>appwrite.js\<close>). JavaScript strings are modelled as
  \<open>string\<close>, read as the UTF-8 bytes of well-formed text. A JavaScript number is a
  double; the numbers of the application are integers, modelled as the \<open>int\<close> they
  denote, with the rounding of a double written out where the code computes with them.
  What \<open>console.error\<close> prints is not modelled.
\<close>

text \<open>
  A field that holds a string, is \<open>null\<close>, or is absent (reading it gives \<open>undefined\<close>).
\<close>

datatype js_string = Undefined | Null | Str string

text \<open>A movie object of the catalog service, with the two fields the code reads.\<close>

record movie =
  id_movie :: int
  poster_path :: js_string

text \<open>
  The parsed JSON body of a catalog response. Each of the three fields the code reads may
  be absent or \<open>null\<close>, which the code does not tell apart (both are falsy, neither is
  the string \<open>False\<close>, and reading \<open>length\<close> of either throws): \<open>None\<close> stands for both.
\<close>

record payload =
  Response :: "string option"
  Error :: "string option"
  results :: "movie list option"

text \<open>A document of the collection; \<open>dollar_id\<close> is the attribute \<open>$id\<close>.\<close>

record document =
  dollar_id :: nat
  searchTerm_attr :: string
  count :: int
  movie_id :: int
  poster_url :: string

datatype js_error =
  JsError string
  | TypeError
  | SyntaxError
  | AppwriteException

section \<open>The document store\<close>

text \<open>
  Modelled from the spec: the document store behind the Appwrite client (the SDK is a
  dependency, not part of the sources). The spec describes it as a document-style store
  that supports an equality-filtered list, an ordered and limited list, create with a
  generated id and update by id. The documents are kept in insertion order. Every call
  may fail: \<open>outages\<close> is the script of the coming calls, \<open>True\<close> for a call that throws,
  and a call past the end of the script succeeds.
\<close>

record database =
  documents :: "document list"
  outages :: "bool list"

datatype query =
  Query_equal_searchTerm string
  | Query_limit nat
  | Query_orderDesc_count

definition request :: "database \<Rightarrow> bool \<times> database" where
  "request db =
     (case outages db of
        [] \<Rightarrow> (False, db)
      | down # rest \<Rightarrow> (down, db\<lparr>outages := rest\<rparr>))"

fun matches :: "query \<Rightarrow> document \<Rightarrow> bool" where
  "matches (Query_equal_searchTerm v) d = (searchTerm_attr d = v)"
| "matches (Query_limit n) d = True"
| "matches Query_orderDesc_count d = True"

fun limits :: "query list \<Rightarrow> nat list" where
  "limits [] = []"
| "limits (Query_limit n # qs) = n # limits qs"
| "limits (q # qs) = limits qs"

definition select :: "query list \<Rightarrow> document list \<Rightarrow> document list" where
  "select qs ds =
     (let filtered = filter (\<lambda>d. list_all (\<lambda>q. matches q d) qs) ds;
          ordered = (if Query_orderDesc_count \<in> set qs
                     then sort_key (\<lambda>d. - count d) filtered else filtered)
      in case limits qs of [] \<Rightarrow> ordered | n # _ \<Rightarrow> take n ordered)"

definition listDocuments :: "query list \<Rightarrow> database \<Rightarrow> (js_error + document list) \<times> database" where
  "listDocuments qs db =
     (let (down, db') = request db
      in if down then (Inl AppwriteException, db')
         else (Inr (select qs (documents db')), db'))"

definition updateDocument :: "nat \<Rightarrow> int \<Rightarrow> database \<Rightarrow> (js_error + unit) \<times> database" where
  "updateDocument i c db =
     (let (down, db') = request db
      in if down \<or> i \<notin> set (map dollar_id (documents db')) then (Inl AppwriteException, db')
         else (Inr (),
               db'\<lparr>documents :=
                     map (\<lambda>d. if dollar_id d = i then d\<lparr>count := c\<rparr> else d) (documents db')\<rparr>))"

definition unique :: "document list \<Rightarrow> nat" where
  "unique ds = Suc (foldr max (map dollar_id ds) 0)"

definition createDocument ::
  "string \<Rightarrow> int \<Rightarrow> int \<Rightarrow> string \<Rightarrow> database \<Rightarrow> (js_error + unit) \<times> database" where
  "createDocument t c mid url db =
     (let (down, db') = request db
      in if down then (Inl AppwriteException, db')
         else (Inr (),
               db'\<lparr>documents := documents db' @
                     [\<lparr>dollar_id = unique (documents db'), searchTerm_attr = t, count = c,
                       movie_id = mid, poster_url = url\<rparr>]\<rparr>))"

section \<open>appwrite.js\<close>

text \<open>
  A template literal converts the interpolated value to a string: \<open>undefined\<close> and
  \<open>null\<close> become their names.
\<close>

definition interpolate :: "js_string \<Rightarrow> string" where
  "interpolate v = (case v of Undefined \<Rightarrow> ''undefined'' | Null \<Rightarrow> ''null'' | Str s \<Rightarrow> s)"

text \<open>
  The arithmetic of \<open>doc.count + 1\<close> is that of doubles. An integer of at most 53 bits
  (and \<open>2 ^ 53\<close> itself) is a double; a longer one is rounded to the nearest integer with 53 significant bits,
  a tie going to the one whose last significant bit is 0 (integers beyond the range of a
  double, from \<open>2 ^ 1024\<close>, do not occur in a store of 64-bit integers). \<open>to_double\<close>
  is the number that JavaScript reads from the JSON text of an integer, and
  \<open>plus_double\<close> is \<open>+\<close> on two doubles that are integers: the exact sum, rounded.
\<close>

function bit_length :: "int \<Rightarrow> nat" where
  "bit_length n = (if n \<le> 0 then 0 else Suc (bit_length (n div 2)))"
  by pat_completeness auto
termination
  by (relation "measure nat") auto

declare bit_length.simps [simp del]

definition nearest_double :: "int \<Rightarrow> int" where
  "nearest_double n =
     (if n \<le> 2 ^ 53 then n
      else (let e = bit_length n - 53;
                q = n div 2 ^ e;
                r = n mod 2 ^ e
            in (if 2 ^ e < 2 * r \<or> (2 * r = 2 ^ e \<and> odd q) then q + 1 else q) * 2 ^ e))"

definition to_double :: "int \<Rightarrow> int" where
  "to_double i = (if i < 0 then - nearest_double (- i) else nearest_double i)"

definition plus_double :: "int \<Rightarrow> int \<Rightarrow> int" where
  "plus_double a b = to_double (a + b)"

text \<open>
  \<^verbatim>\<open>
  const result = await database.listDocuments(DATABASE_ID, COLLECTION_ID, [
    Query.equal("searchTerm", searchTerm)]);
  if (result.documents.length > 0) {
    const doc = result.documents[0];
    await database.updateDocument(DATABASE_ID, COLLECTION_ID, doc.$id, { count: doc.count + 1 });
  } else {
    await database.createDocument(DATABASE_ID, COLLECTION_ID, ID.unique(), {
      searchTerm, count: 1, movie_id: movie.id,
      poster_url: `https://image.tmdb.org/t/p/w500${movie.poster_path}` });
  }
  \<close>
  The body of the \<open>try\<close> block of \<open>updateSearchCount\<close>; an exception of a store call
  leaves it at once. \<open>doc.count\<close> is the stored integer as JavaScript reads it.
\<close>

definition updateSearchCount_try :: "string \<Rightarrow> movie \<Rightarrow> database \<Rightarrow> (js_error + unit) \<times> database" where
  "updateSearchCount_try t m db =
     (case listDocuments [Query_equal_searchTerm t] db of
        (Inl e, db1) \<Rightarrow> (Inl e, db1)
      | (Inr result, db1) \<Rightarrow>
          (case result of
             doc # _ \<Rightarrow>
               updateDocument (dollar_id doc) (plus_double (to_double (count doc)) 1) db1
           | [] \<Rightarrow>
               createDocument t 1 (id_movie m)
                 (''https://image.tmdb.org/t/p/w500'' @ interpolate (poster_path m)) db1))"

text \<open>
  \<open>updateSearchCount\<close>: the \<open>catch\<close> clause logs the exception and the function
  returns normally, so the caller sees only the store.
\<close>

definition updateSearchCount :: "string \<Rightarrow> movie \<Rightarrow> database \<Rightarrow> database" where
  "updateSearchCount t m db = snd (updateSearchCount_try t m db)"

text \<open>
  \<open>getTrendingMovies\<close> returns \<open>result.documents\<close>; when the store call throws, the
  \<open>catch\<close> clause logs and the function falls off its end, returning \<open>undefined\<close>
  (\<open>None\<close>).
\<close>

definition getTrendingMovies :: "database \<Rightarrow> document list option \<times> database" where
  "getTrendingMovies db =
     (case listDocuments [Query_limit 5, Query_orderDesc_count] db of
        (Inl e, db1) \<Rightarrow> (None, db1)
      | (Inr result, db1) \<Rightarrow> (Some result, db1))"

text \<open>The next \<open>n\<close> calls of the store succeed.\<close>

definition available :: "nat \<Rightarrow> database \<Rightarrow> bool" where
  "available n db = (True \<notin> set (take n (outages db)))"

section \<open>The catalog service\<close>

text \<open>
  \<open>encodeURIComponent\<close> keeps the unreserved characters (letters, digits and
  \<open>- _ . ! ~ * ' ( )\<close>) and writes every other byte of the UTF-8 text as \<open>%\<close> and two
  upper-case hexadecimal digits. It throws only on an unpaired surrogate, which has no
  UTF-8 form.
\<close>

definition uriUnescaped :: "char \<Rightarrow> bool" where
  "uriUnescaped c =
     (c \<in> set (''ABCDEFGHIJKLMNOPQRSTUVWXYZabcdefghijklmnopqrstuvwxyz0123456789-_.!~*()''
                @ [CHR 0x27]))"

definition hexDigit :: "nat \<Rightarrow> char" where
  "hexDigit n = ''0123456789ABCDEF'' ! n"

definition percentEncode :: "char \<Rightarrow> string" where
  "percentEncode c =
     [CHR ''%'', hexDigit ((of_char c :: nat) div 16), hexDigit ((of_char c :: nat) mod 16)]"

definition encodeURIComponent :: "string \<Rightarrow> string" where
  "encodeURIComponent s =
     concat (map (\<lambda>c. if uriUnescaped c then [c] else percentEncode c) s)"

definition API_BASE_URL :: string where
  "API_BASE_URL = ''https://api.themoviedb.org/3''"

text \<open>
  \<^verbatim>\<open>
  const endpoint = query ? `${API_BASE_URL}/search/movie?query=${encodeURIComponent(query)}`
                         : `${API_BASE_URL}/discover/movie?sort_by=popularity.desc`;
  \<close>
  A string is truthy when it is not empty.
\<close>

definition endpoint :: "string \<Rightarrow> string" where
  "endpoint query =
     (if query \<noteq> [] then API_BASE_URL @ ''/search/movie?query='' @ encodeURIComponent query
      else API_BASE_URL @ ''/discover/movie?sort_by=popularity.desc'')"

text \<open>
  What \<open>fetch\<close> and \<open>response.json()\<close> give for one request: the promise of \<open>fetch\<close>
  is rejected, or the response has a non-success status (the code never reads its body),
  or the status is a success and the body parses to a payload (\<open>Some\<close>) or
  \<open>response.json()\<close> is rejected (\<open>None\<close>).
\<close>

datatype fetch_outcome =
  FetchRejected
  | ResponseNotOk
  | ResponseOk "payload option"

section \<open>The App component\<close>

text \<open>The six state variables of \<open>App\<close>; \<open>trendingMovies\<close> can be set to \<open>undefined\<close>.\<close>

record ui_state =
  debouncedSearchTerm :: string
  searchTerm :: string
  movieList :: "movie list"
  errorMessage :: string
  isLoading :: bool
  trendingMovies :: "document list option"

definition initial_ui :: ui_state where
  "initial_ui =
     \<lparr>debouncedSearchTerm = [], searchTerm = [], movieList = [], errorMessage = [],
      isLoading = False, trendingMovies = Some []\<rparr>"

text \<open>
  The state of the application and of what it talks to: the component state, the document
  store, the endpoints passed to \<open>fetch\<close> so far, the calls of \<open>updateSearchCount\<close> so
  far, and the component state at each \<open>await\<close> of \<open>fetchMovies\<close> so far (what a render
  during that wait shows).
\<close>

record world =
  ui :: ui_state
  store :: database
  requests :: "string list"
  recorded :: "(string \<times> movie) list"
  awaited :: "ui_state list"

definition setDebouncedSearchTerm :: "string \<Rightarrow> world \<Rightarrow> world" where
  "setDebouncedSearchTerm v w = w\<lparr>ui := (ui w)\<lparr>debouncedSearchTerm := v\<rparr>\<rparr>"

definition setSearchTerm :: "string \<Rightarrow> world \<Rightarrow> world" where
  "setSearchTerm v w = w\<lparr>ui := (ui w)\<lparr>searchTerm := v\<rparr>\<rparr>"

definition setMovieList :: "movie list \<Rightarrow> world \<Rightarrow> world" where
  "setMovieList v w = w\<lparr>ui := (ui w)\<lparr>movieList := v\<rparr>\<rparr>"

definition setErrorMessage :: "string \<Rightarrow> world \<Rightarrow> world" where
  "setErrorMessage v w = w\<lparr>ui := (ui w)\<lparr>errorMessage := v\<rparr>\<rparr>"

definition setIsLoading :: "bool \<Rightarrow> world \<Rightarrow> world" where
  "setIsLoading v w = w\<lparr>ui := (ui w)\<lparr>isLoading := v\<rparr>\<rparr>"

definition setTrendingMovies :: "document list option \<Rightarrow> world \<Rightarrow> world" where
  "setTrendingMovies v w = w\<lparr>ui := (ui w)\<lparr>trendingMovies := v\<rparr>\<rparr>"

definition suspend :: "world \<Rightarrow> world" where
  "suspend w = w\<lparr>awaited := awaited w @ [ui w]\<rparr>"

text \<open>\<open>data.Error || "Failed to fetch movies"\<close>: an absent or empty string is falsy.\<close>

definition or_else :: "string option \<Rightarrow> string \<Rightarrow> string" where
  "or_else v d = (case v of None \<Rightarrow> d | Some s \<Rightarrow> if s \<noteq> [] then s else d)"

text \<open>
  The \<open>try\<close> block of \<open>fetchMovies\<close>, lines 60 to 88. The result is the exception that
  leaves the block, if any, and the state then.
  \<^verbatim>\<open>
  const response = await fetch(endpoint, API_OPTIONS);
  if (!response.ok) { throw new Error("Failed to fetch movies"); }
  const data = await response.json();
  if (data.Response === "False") {
    setErrorMessage(data.Error || "Failed to fetch movies");
    setMovieList([]);
    return;
  }
  setMovieList(data.results || []);
  if (query && data.results.length > 0) {
    await updateSearchCount(query, data.results[0]);
  }
  \<close>
  \<open>data.results.length\<close> is evaluated only when \<open>query\<close> is truthy, and throws a
  TypeError when \<open>data.results\<close> is absent.
\<close>

definition fetchMovies_try ::
  "(string \<Rightarrow> fetch_outcome) \<Rightarrow> string \<Rightarrow> world \<Rightarrow> js_error option \<times> world" where
  "fetchMovies_try fetch query w0 =
     (let w1 = suspend (w0\<lparr>requests := requests w0 @ [endpoint query]\<rparr>)
      in case fetch (endpoint query) of
           FetchRejected \<Rightarrow> (Some TypeError, w1)
         | ResponseNotOk \<Rightarrow> (Some (JsError ''Failed to fetch movies''), w1)
         | ResponseOk body \<Rightarrow>
             (let w2 = suspend w1
              in case body of
                   None \<Rightarrow> (Some SyntaxError, w2)
                 | Some data \<Rightarrow>
                     if Response data = Some ''False'' then
                       (None,
                        setMovieList []
                          (setErrorMessage (or_else (Error data) ''Failed to fetch movies'') w2))
                     else
                       (let w3 = setMovieList (case results data of None \<Rightarrow> [] | Some rs \<Rightarrow> rs) w2
                        in if query \<noteq> [] then
                             (case results data of
                                None \<Rightarrow> (Some TypeError, w3)
                              | Some [] \<Rightarrow> (None, w3)
                              | Some (m # ms) \<Rightarrow>
                                  (let w4 = suspend (w3\<lparr>recorded := recorded w3 @ [(query, m)]\<rparr>)
                                   in (None, w4\<lparr>store := updateSearchCount query m (store w4)\<rparr>)))
                           else (None, w3))))"

text \<open>
  \<open>fetchMovies\<close>: the two setters before the \<open>try\<close>, the \<open>catch\<close> clause and the
  \<open>finally\<close> clause.
\<close>

definition fetchMovies :: "(string \<Rightarrow> fetch_outcome) \<Rightarrow> string \<Rightarrow> world \<Rightarrow> world" where
  "fetchMovies fetch query w =
     (let w0 = setErrorMessage [] (setIsLoading True w);
          (thrown, w1) = fetchMovies_try fetch query w0;
          w2 = (case thrown of
                  None \<Rightarrow> w1
                | Some e \<Rightarrow> setErrorMessage ''Error fetching movies. Please try again later.'' w1)
      in setIsLoading False w2)"

text \<open>
  One execution of \<open>fetchMovies\<close> in two parts, for executions that overlap: the effect
  of lines 108 to 110 does not wait for the call it makes, so a second execution can
  begin while the first one waits for \<open>fetch\<close>. \<open>fetchMovies_begin\<close> runs up to the
  first \<open>await\<close> (lines 57 to 65); \<open>fetchMovies_answered\<close> is the rest of the \<open>try\<close>
  block once \<open>fetch\<close> has settled, and \<open>fetchMovies_resume\<close> runs it with the
  \<open>catch\<close> and \<open>finally\<close> clauses, on the state as it is by then.
\<close>

definition fetchMovies_begin :: "string \<Rightarrow> world \<Rightarrow> world" where
  "fetchMovies_begin query w =
     (let w0 = setErrorMessage [] (setIsLoading True w)
      in suspend (w0\<lparr>requests := requests w0 @ [endpoint query]\<rparr>))"

definition fetchMovies_answered ::
  "(string \<Rightarrow> fetch_outcome) \<Rightarrow> string \<Rightarrow> world \<Rightarrow> js_error option \<times> world" where
  "fetchMovies_answered fetch query w1 =
     (case fetch (endpoint query) of
        FetchRejected \<Rightarrow> (Some TypeError, w1)
      | ResponseNotOk \<Rightarrow> (Some (JsError ''Failed to fetch movies''), w1)
      | ResponseOk body \<Rightarrow>
          (let w2 = suspend w1
           in case body of
                None \<Rightarrow> (Some SyntaxError, w2)
              | Some data \<Rightarrow>
                  if Response data = Some ''False'' then
                    (None,
                     setMovieList []
                       (setErrorMessage (or_else (Error data) ''Failed to fetch movies'') w2))
                  else
                    (let w3 = setMovieList (case results data of None \<Rightarrow> [] | Some rs \<Rightarrow> rs) w2
                     in if query \<noteq> [] then
                          (case results data of
                             None \<Rightarrow> (Some TypeError, w3)
                           | Some [] \<Rightarrow> (None, w3)
                           | Some (m # ms) \<Rightarrow>
                               (let w4 = suspend (w3\<lparr>recorded := recorded w3 @ [(query, m)]\<rparr>)
                                in (None, w4\<lparr>store := updateSearchCount query m (store w4)\<rparr>)))
                        else (None, w3))))"

definition fetchMovies_resume :: "(string \<Rightarrow> fetch_outcome) \<Rightarrow> string \<Rightarrow> world \<Rightarrow> world" where
  "fetchMovies_resume fetch query w =
     (let (thrown, w1) = fetchMovies_answered fetch query w;
          w2 = (case thrown of
                  None \<Rightarrow> w1
                | Some e \<Rightarrow> setErrorMessage ''Error fetching movies. Please try again later.'' w1)
      in setIsLoading False w2)"

text \<open>
  \<open>loadTrendingMovies\<close>: \<open>getTrendingMovies\<close> catches its own exceptions, so the
  \<open>catch\<close> clause here is never entered, and \<open>setTrendingMovies\<close> receives whatever was
  returned.
\<close>

definition loadTrendingMovies :: "world \<Rightarrow> world" where
  "loadTrendingMovies w =
     (let (movies, db') = getTrendingMovies (store w)
      in setTrendingMovies movies (w\<lparr>store := db'\<rparr>))"

text \<open>
  What \<open>App\<close> renders, lines 117 to 165: the trending section when
  \<open>trendingMovies.length > 0\<close> (a TypeError when \<open>trendingMovies\<close> is \<open>undefined\<close>), and
  the spinner, the error message or the movie cards, in this order of precedence.
\<close>

datatype all_movies = Spinner | ErrorText string | MovieCards "movie list"

record view =
  trending_section :: "document list option"
  all_movies_section :: all_movies

definition all_movies_view :: "ui_state \<Rightarrow> all_movies" where
  "all_movies_view s =
     (if isLoading s then Spinner
      else if errorMessage s \<noteq> [] then ErrorText (errorMessage s)
      else MovieCards (movieList s))"

definition render :: "ui_state \<Rightarrow> js_error + view" where
  "render s =
     (case trendingMovies s of
        None \<Rightarrow> Inl TypeError
      | Some tm \<Rightarrow>
          Inr \<lparr>trending_section = (if length tm > 0 then Some tm else None),
               all_movies_section = all_movies_view s\<rparr>)"

section \<open>The debounced search term\<close>

text \<open>
  Modelled from the spec: the Debounce Timer, which the code takes from the library
  react-use (\<open>useDebounce\<close>, line 53; the hook itself is not part of the sources). On each
  input change, any pending scheduled propagation is cancelled and a new one is scheduled
  after the quiet window; if the window elapses with no further change, the latest value
  is propagated. Time is counted in units; \<open>timer\<close> is the time at which the pending
  propagation is due.
\<close>

record runtime =
  page :: world
  timer :: "nat option"

definition quiet_window :: nat where
  "quiet_window = 500"

text \<open>
  The propagation is the callback \<open>() => setDebouncedSearchTerm(searchTerm)\<close>. The effect
  of lines 108 to 110 depends on \<open>debouncedSearchTerm\<close>: it calls
  \<open>fetchMovies(debouncedSearchTerm)\<close> when the debounced term has changed. The query is
  run to its end before the next event.
\<close>

definition propagate :: "(string \<Rightarrow> fetch_outcome) \<Rightarrow> runtime \<Rightarrow> runtime" where
  "propagate fetch r =
     (let w = page r;
          v = searchTerm (ui w);
          w' = setDebouncedSearchTerm v w
      in r\<lparr>page := (if v \<noteq> debouncedSearchTerm (ui w) then fetchMovies fetch v w' else w'),
           timer := None\<rparr>)"

definition elapse :: "(string \<Rightarrow> fetch_outcome) \<Rightarrow> nat \<Rightarrow> runtime \<Rightarrow> runtime" where
  "elapse fetch now r =
     (case timer r of
        None \<Rightarrow> r
      | Some due \<Rightarrow> if due \<le> now then propagate fetch r else r)"

text \<open>
  The input's \<open>onChange\<close> at time \<open>now\<close>: \<open>setSearchTerm(e.target.value)\<close>, after which
  the timer is armed again.
\<close>

definition onChange :: "(string \<Rightarrow> fetch_outcome) \<Rightarrow> nat \<Rightarrow> string \<Rightarrow> runtime \<Rightarrow> runtime" where
  "onChange fetch now v r =
     (let r' = elapse fetch now r
      in r'\<lparr>page := setSearchTerm v (page r'), timer := Some (now + quiet_window)\<rparr>)"

text \<open>A sequence of changes, each with its time, and the state at a time \<open>T\<close>.\<close>

definition typing ::
  "(string \<Rightarrow> fetch_outcome) \<Rightarrow> (nat \<times> string) list \<Rightarrow> runtime \<Rightarrow> runtime" where
  "typing fetch cs r = foldl (\<lambda>r' (now, v). onChange fetch now v r') r cs"

definition at_time ::
  "(string \<Rightarrow> fetch_outcome) \<Rightarrow> nat \<Rightarrow> (nat \<times> string) list \<Rightarrow> runtime \<Rightarrow> runtime" where
  "at_time fetch T cs r = elapse fetch T (typing fetch (takeWhile (\<lambda>(now, v). now \<le> T) cs) r)"

text \<open>
  The changes are in the order of their times, and each one comes strictly within the
  quiet window of the one before.
\<close>

fun rapid :: "(nat \<times> string) list \<Rightarrow> bool" where
  "rapid ((t1, v1) # (t2, v2) # cs) =
     (t1 \<le> t2 \<and> t2 < t1 + quiet_window \<and> rapid ((t2, v2) # cs))"
| "rapid cs = True"

section \<open>Example data\<close>

definition empty_store :: database where
  "empty_store = \<lparr>documents = [], outages = []\<rparr>"

definition dune :: movie where
  "dune = \<lparr>id_movie = 438631, poster_path = Str ''/abc.jpg''\<rparr>"

definition no_poster :: movie where
  "no_poster = \<lparr>id_movie = 603, poster_path = Null\<rparr>"

definition unset_poster :: movie where
  "unset_poster = \<lparr>id_movie = 603, poster_path = Undefined\<rparr>"

definition counted_out :: database where
  "counted_out =
     \<lparr>documents =
        [\<lparr>dollar_id = 1, searchTerm_attr = ''dune'', count = 9007199254740992,
          movie_id = 438631, poster_url = ''https://image.tmdb.org/t/p/w500/abc.jpg''\<rparr>],
      outages = []\<rparr>"

definition five_terms :: database where
  "five_terms =
     \<lparr>documents =
        [\<lparr>dollar_id = 1, searchTerm_attr = ''alien'', count = 3, movie_id = 348,
          poster_url = ''https://image.tmdb.org/t/p/w500/a.jpg''\<rparr>,
         \<lparr>dollar_id = 2, searchTerm_attr = ''brazil'', count = 1, movie_id = 68,
          poster_url = ''https://image.tmdb.org/t/p/w500/b.jpg''\<rparr>,
         \<lparr>dollar_id = 3, searchTerm_attr = ''casablanca'', count = 5, movie_id = 289,
          poster_url = ''https://image.tmdb.org/t/p/w500/c.jpg''\<rparr>,
         \<lparr>dollar_id = 4, searchTerm_attr = ''dune'', count = 2, movie_id = 438631,
          poster_url = ''https://image.tmdb.org/t/p/w500/d.jpg''\<rparr>,
         \<lparr>dollar_id = 5, searchTerm_attr = ''eraserhead'', count = 4, movie_id = 985,
          poster_url = ''https://image.tmdb.org/t/p/w500/e.jpg''\<rparr>],
      outages = []\<rparr>"

definition initial_world :: world where
  "initial_world =
     \<lparr>ui = initial_ui, store = empty_store, requests = [], recorded = [], awaited = []\<rparr>"

definition quiescent :: runtime where
  "quiescent = \<lparr>page = initial_world, timer = None\<rparr>"

definition offline :: "string \<Rightarrow> fetch_outcome" where
  "offline u = FetchRejected"

definition server_error :: "string \<Rightarrow> fetch_outcome" where
  "server_error u = ResponseNotOk"

definition answer :: "payload \<Rightarrow> string \<Rightarrow> fetch_outcome" where
  "answer data u = ResponseOk (Some data)"

definition limit_reached :: payload where
  "limit_reached =
     \<lparr>Response = Some ''False'', Error = Some ''Request limit reached'', results = None\<rparr>"

definition without_results :: payload where
  "without_results = \<lparr>Response = None, Error = None, results = None\<rparr>"

definition found_dune :: payload where
  "found_dune = \<lparr>Response = None, Error = None, results = Some [dune]\<rparr>"

definition showing_dune :: world where
  "showing_dune = setMovieList [dune] initial_world"

definition blackout :: world where
  "blackout = initial_world\<lparr>store := \<lparr>documents = documents five_terms, outages = [True]\<rparr>\<rparr>"

definition inception_typed :: "(nat \<times> string) list" where
  "inception_typed =
     [(0, ''i''), (200, ''in''), (400, ''inc''), (600, ''ince''), (800, ''incep''),
      (1000, ''incept''), (1200, ''incepti''), (1400, ''inceptio''), (1600, ''inception'')]"

definition typed_and_erased :: "(nat \<times> string) list" where
  "typed_and_erased = [(0, ''a''), (100, [])]"

section \<open>Properties of the document store\<close>

lemma request_available:
  "available (Suc n) db \<Longrightarrow>
     fst (request db) = False \<and> documents (snd (request db)) = documents db \<and>
     available n (snd (request db))"
  by (cases "outages db") (auto simp: available_def request_def)

lemma select_equal:
  "select [Query_equal_searchTerm t] ds = filter (\<lambda>d. searchTerm_attr d = t) ds"
  by (simp add: select_def)

lemma select_trending:
  "select [Query_limit 5, Query_orderDesc_count] ds = take 5 (sort_key (\<lambda>d. - count d) ds)"
  by (simp add: select_def)

lemma listDocuments_available:
  "available (Suc n) db \<Longrightarrow>
     fst (listDocuments qs db) = Inr (select qs (documents db)) \<and>
     documents (snd (listDocuments qs db)) = documents db \<and>
     available n (snd (listDocuments qs db))"
  using request_available [of n db]
  by (auto simp: listDocuments_def split: prod.splits)

lemma foldr_max_upper: "x \<in> set xs \<Longrightarrow> x \<le> foldr max xs (0::nat)"
  by (induction xs) auto

lemma unique_fresh: "unique ds \<notin> set (map dollar_id ds)"
proof
  assume "unique ds \<in> set (map dollar_id ds)"
  then have "unique ds \<le> foldr max (map dollar_id ds) 0" by (rule foldr_max_upper)
  then show False by (simp add: unique_def)
qed

lemma filter_first_match:
  "\<forall>x\<in>set pre. searchTerm_attr x \<noteq> t \<Longrightarrow> searchTerm_attr d = t \<Longrightarrow>
     filter (\<lambda>d. searchTerm_attr d = t) (pre @ d # post) = d # filter (\<lambda>d. searchTerm_attr d = t) post"
  by (induction pre) auto

lemma map_update_distinct:
  "distinct (map dollar_id (pre @ d # post)) \<Longrightarrow>
     map (\<lambda>x. if dollar_id x = dollar_id d then x\<lparr>count := c\<rparr> else x) (pre @ d # post)
       = pre @ d\<lparr>count := c\<rparr> # post"
proof -
  assume dist: "distinct (map dollar_id (pre @ d # post))"
  then have "\<forall>x\<in>set pre. dollar_id x \<noteq> dollar_id d" and "\<forall>x\<in>set post. dollar_id x \<noteq> dollar_id d"
    by (auto simp: image_iff)
  then have "map (\<lambda>x. if dollar_id x = dollar_id d then x\<lparr>count := c\<rparr> else x) pre = pre"
    and "map (\<lambda>x. if dollar_id x = dollar_id d then x\<lparr>count := c\<rparr> else x) post = post"
    by (simp_all add: map_idI)
  then show ?thesis by simp
qed

lemma to_double_exact: "\<bar>i\<bar> \<le> 2 ^ 53 \<Longrightarrow> to_double i = i"
  by (auto simp: to_double_def nearest_double_def)

lemma plus_double_one: "\<bar>i\<bar> < 2 ^ 53 \<Longrightarrow> plus_double (to_double i) 1 = i + 1"
  by (simp add: plus_double_def to_double_exact)

lemma bit_length_54: "bit_length 9007199254740993 = 54"
  by (simp add: bit_length.simps)

lemma plus_double_stuck: "plus_double (to_double 9007199254740992) 1 = 9007199254740992"
  by (simp add: plus_double_def to_double_def nearest_double_def bit_length_54 Let_def)

lemma updateSearchCount_found:
  assumes av: "available 2 db"
    and dist: "distinct (map dollar_id (documents db))"
    and split: "documents db = pre @ d # post"
    and hit: "searchTerm_attr d = t"
    and miss: "\<forall>x\<in>set pre. searchTerm_attr x \<noteq> t"
  shows "documents (updateSearchCount t m db) =
           pre @ d\<lparr>count := plus_double (to_double (count d)) 1\<rparr> # post"
proof -
  from av have av': "available (Suc 1) db" by (simp add: numeral_2_eq_2)
  obtain r db1 where l: "listDocuments [Query_equal_searchTerm t] db = (r, db1)"
    by (cases "listDocuments [Query_equal_searchTerm t] db")
  from listDocuments_available [OF av', of "[Query_equal_searchTerm t]"] l
  have r: "r = Inr (select [Query_equal_searchTerm t] (documents db))"
    and docs1: "documents db1 = documents db" and av1: "available 1 db1"
    by simp_all
  from r split hit miss
  have r': "r = Inr (d # filter (\<lambda>d. searchTerm_attr d = t) post)"
    by (simp add: select_equal filter_first_match)
  from av1 have "available (Suc 0) db1" by simp
  from request_available [OF this]
  have rq: "fst (request db1) = False" "documents (snd (request db1)) = documents db" 
    by (simp_all add: docs1)
  have "documents (snd (updateDocument (dollar_id d) (plus_double (to_double (count d)) 1) db1))
          = pre @ d\<lparr>count := plus_double (to_double (count d)) 1\<rparr> # post"
    using rq dist split map_update_distinct [of pre d post "plus_double (to_double (count d)) 1"]
    by (auto simp: updateDocument_def split: prod.splits)
  with l r' show ?thesis
    by (simp add: updateSearchCount_def updateSearchCount_try_def)
qed

lemma updateSearchCount_new:
  assumes av: "available 2 db"
    and miss: "\<forall>x\<in>set (documents db). searchTerm_attr x \<noteq> t"
  shows "documents (updateSearchCount t m db) = documents db @
     [\<lparr>dollar_id = unique (documents db), searchTerm_attr = t, count = 1,
       movie_id = id_movie m,
       poster_url = ''https://image.tmdb.org/t/p/w500'' @ interpolate (poster_path m)\<rparr>]"
proof -
  from av have av': "available (Suc 1) db" by (simp add: numeral_2_eq_2)
  obtain r db1 where l: "listDocuments [Query_equal_searchTerm t] db = (r, db1)"
    by (cases "listDocuments [Query_equal_searchTerm t] db")
  from listDocuments_available [OF av', of "[Query_equal_searchTerm t]"] l
  have r: "r = Inr (select [Query_equal_searchTerm t] (documents db))"
    and docs1: "documents db1 = documents db" and av1: "available 1 db1"
    by simp_all
  from miss have "filter (\<lambda>d. searchTerm_attr d = t) (documents db) = []"
    by (simp add: filter_empty_conv)
  with r have r': "r = Inr []" by (simp add: select_equal)
  from av1 have "available (Suc 0) db1" by simp
  from request_available [OF this]
  have rq: "fst (request db1) = False" "documents (snd (request db1)) = documents db" 
    by (simp_all add: docs1)
  then show ?thesis using l r'
    by (auto simp: updateSearchCount_def updateSearchCount_try_def createDocument_def
        split: prod.splits)
qed

lemma updateSearchCount_distinct:
  assumes av: "available 2 db" and dist: "distinct (map dollar_id (documents db))"
  shows "distinct (map dollar_id (documents (updateSearchCount t m db)))"
proof (cases "\<forall>x\<in>set (documents db). searchTerm_attr x \<noteq> t")
  case True
  from updateSearchCount_new [OF av True, of m] dist unique_fresh [of "documents db"]
  show ?thesis by simp
next
  case False
  then have "\<exists>x\<in>set (documents db). searchTerm_attr x = t" by blast
  then obtain pre d post where sp: "documents db = pre @ d # post"
    and hit: "searchTerm_attr d = t" and miss: "\<forall>x\<in>set pre. searchTerm_attr x \<noteq> t"
    using split_list_first_prop [of "documents db" "\<lambda>x. searchTerm_attr x = t"] by blast
  from updateSearchCount_found [OF av dist sp hit miss, of m] dist sp
  show ?thesis by simp
qed

section \<open>The search count is an upsert\<close>

text \<open>
  Claim C1, as amended. For every term and movie, \<open>updateSearchCount\<close> performs an upsert
  on a store whose two calls succeed and whose document ids are unique. If a document with
  the term exists, no document is created and only the count of the first such document
  is written; when that count is below \<open>2 ^ 53\<close> in absolute value it grows by exactly
  1. If none exists, exactly one document is appended: its count is 1, its movie id is the
  id of the given movie, and its poster URL is the image-host prefix followed by the poster
  path of the movie, or by the text \<open>null\<close> when the path is null (and \<open>undefined\<close>
  when it is absent). The ids stay unique.
\<close>

theorem updateSearchCount_upsert:
  assumes "available 2 db" and "distinct (map dollar_id (documents db))"
  shows "(\<forall>pre d post.
            documents db = pre @ d # post \<and> searchTerm_attr d = t \<and>
            (\<forall>x\<in>set pre. searchTerm_attr x \<noteq> t) \<longrightarrow>
            documents (updateSearchCount t m db) =
              pre @ d\<lparr>count := plus_double (to_double (count d)) 1\<rparr> # post \<and>
            (\<bar>count d\<bar> < 2 ^ 53 \<longrightarrow>
               documents (updateSearchCount t m db) = pre @ d\<lparr>count := count d + 1\<rparr> # post))
       \<and> ((\<forall>x\<in>set (documents db). searchTerm_attr x \<noteq> t) \<longrightarrow>
            documents (updateSearchCount t m db) = documents db @
              [\<lparr>dollar_id = unique (documents db), searchTerm_attr = t, count = 1,
                movie_id = id_movie m,
                poster_url = ''https://image.tmdb.org/t/p/w500'' @
                  (case poster_path m of
                     Undefined \<Rightarrow> ''undefined'' | Null \<Rightarrow> ''null'' | Str p \<Rightarrow> p)\<rparr>]
            \<and> unique (documents db) \<notin> set (map dollar_id (documents db)))
       \<and> distinct (map dollar_id (documents (updateSearchCount t m db)))"
proof (intro conjI allI impI)
  fix pre d post
  assume a: "documents db = pre @ d # post \<and> searchTerm_attr d = t \<and>
            (\<forall>x\<in>set pre. searchTerm_attr x \<noteq> t)"
  with assms show general: "documents (updateSearchCount t m db) =
      pre @ d\<lparr>count := plus_double (to_double (count d)) 1\<rparr> # post"
    by (simp add: updateSearchCount_found)
  assume "\<bar>count d\<bar> < 2 ^ 53"
  with general show "documents (updateSearchCount t m db) = pre @ d\<lparr>count := count d + 1\<rparr> # post"
    by (simp add: plus_double_one)
next
  assume "\<forall>x\<in>set (documents db). searchTerm_attr x \<noteq> t"
  from updateSearchCount_new [OF assms(1) this, of m]
  show "documents (updateSearchCount t m db) = documents db @
              [\<lparr>dollar_id = unique (documents db), searchTerm_attr = t, count = 1,
                movie_id = id_movie m,
                poster_url = ''https://image.tmdb.org/t/p/w500'' @
                  (case poster_path m of
                     Undefined \<Rightarrow> ''undefined'' | Null \<Rightarrow> ''null'' | Str p \<Rightarrow> p)\<rparr>]"
    by (simp add: interpolate_def)
next
  show "unique (documents db) \<notin> set (map dollar_id (documents db))"
    by (rule unique_fresh)
next
  from assms show "distinct (map dollar_id (documents (updateSearchCount t m db)))"
    by (rule updateSearchCount_distinct)
qed

lemma dune_once:
  "updateSearchCount ''dune'' dune empty_store =
       \<lparr>documents = [\<lparr>dollar_id = 1, searchTerm_attr = ''dune'', count = 1, movie_id = 438631,
                      poster_url = ''https://image.tmdb.org/t/p/w500/abc.jpg''\<rparr>], outages = []\<rparr>"
  by (simp add: updateSearchCount_def updateSearchCount_try_def listDocuments_def request_def
      select_def empty_store_def createDocument_def unique_def dune_def interpolate_def)

theorem updateSearchCount_upsert_witness:
  "available 2 empty_store \<and> distinct (map dollar_id (documents empty_store))
   \<and> documents (updateSearchCount ''dune'' dune empty_store) =
       [\<lparr>dollar_id = 1, searchTerm_attr = ''dune'', count = 1, movie_id = 438631,
         poster_url = ''https://image.tmdb.org/t/p/w500/abc.jpg''\<rparr>]
   \<and> documents (updateSearchCount ''dune'' dune (updateSearchCount ''dune'' dune empty_store)) =
       [\<lparr>dollar_id = 1, searchTerm_attr = ''dune'', count = 2, movie_id = 438631,
         poster_url = ''https://image.tmdb.org/t/p/w500/abc.jpg''\<rparr>]
   \<and> documents (updateSearchCount ''matrix'' no_poster empty_store) =
       [\<lparr>dollar_id = 1, searchTerm_attr = ''matrix'', count = 1, movie_id = 603,
         poster_url = ''https://image.tmdb.org/t/p/w500null''\<rparr>]
   \<and> documents (updateSearchCount ''matrix'' unset_poster empty_store) =
       [\<lparr>dollar_id = 1, searchTerm_attr = ''matrix'', count = 1, movie_id = 603,
         poster_url = ''https://image.tmdb.org/t/p/w500undefined''\<rparr>]"
proof -
  let ?d = "\<lparr>dollar_id = 1, searchTerm_attr = ''dune'', count = 1, movie_id = 438631,
         poster_url = ''https://image.tmdb.org/t/p/w500/abc.jpg''\<rparr>"
  let ?db1 = "updateSearchCount ''dune'' dune empty_store"
  have av: "available 2 empty_store" and dist: "distinct (map dollar_id (documents empty_store))"
    by (simp_all add: available_def empty_store_def)
  have first: "documents ?db1 = [?d]"
    using updateSearchCount_upsert [OF av dist, of "''dune''" dune]
    by (simp add: empty_store_def unique_def dune_def)
  have av1: "available 2 ?db1" and dist1: "distinct (map dollar_id (documents ?db1))"
    by (simp_all add: dune_once available_def)
  have "documents ?db1 = [] @ ?d # [] \<and> searchTerm_attr ?d = ''dune'' \<and>
            (\<forall>x\<in>set []. searchTerm_attr x \<noteq> ''dune'')"
    and "\<bar>count ?d\<bar> < 2 ^ 53"
    using first by simp_all
  with updateSearchCount_upsert [OF av1 dist1, of "''dune''" dune]
  have "documents (updateSearchCount ''dune'' dune ?db1) = [] @ ?d\<lparr>count := count ?d + 1\<rparr> # []"
    by blast
  moreover have "documents (updateSearchCount ''matrix'' no_poster empty_store) =
       [\<lparr>dollar_id = 1, searchTerm_attr = ''matrix'', count = 1, movie_id = 603,
         poster_url = ''https://image.tmdb.org/t/p/w500null''\<rparr>]"
    using updateSearchCount_upsert [OF av dist, of "''matrix''" no_poster]
    by (simp add: empty_store_def unique_def no_poster_def)
  moreover have "documents (updateSearchCount ''matrix'' unset_poster empty_store) =
       [\<lparr>dollar_id = 1, searchTerm_attr = ''matrix'', count = 1, movie_id = 603,
         poster_url = ''https://image.tmdb.org/t/p/w500undefined''\<rparr>]"
    using updateSearchCount_upsert [OF av dist, of "''matrix''" unset_poster]
    by (simp add: empty_store_def unique_def unset_poster_def)
  ultimately show ?thesis using av dist first by simp
qed

text \<open>
  Claim C1, as stated, fails for a count that has reached \<open>2 ^ 53\<close>: the sum
  \<open>doc.count + 1\<close> is rounded back to \<open>2 ^ 53\<close>, and the count written is the one
  that was there, not the count incremented by 1.
\<close>

theorem updateSearchCount_count_stuck:
  "available 2 counted_out \<and> distinct (map dollar_id (documents counted_out))
   \<and> map searchTerm_attr (documents counted_out) = [''dune'']
   \<and> map count (documents counted_out) = [9007199254740992]
   \<and> map count (documents (updateSearchCount ''dune'' dune counted_out)) = [9007199254740992]
   \<and> map count (documents (updateSearchCount ''dune'' dune counted_out)) \<noteq>
       [9007199254740992 + 1]"
  by (simp add: counted_out_def available_def updateSearchCount_def updateSearchCount_try_def
      listDocuments_def request_def select_def updateDocument_def plus_double_stuck)

section \<open>The trending list\<close>

lemma sorted_desc_sort_key:
  "sorted_wrt (\<lambda>a b. b \<le> a) (map count (sort_key (\<lambda>d. - count d) ds))"
proof -
  have "sorted (map (\<lambda>d. - count d) (sort_key (\<lambda>d. - count d) ds))"
    by (rule sorted_sort_key)
  then have "sorted_wrt (\<lambda>a b. - count a \<le> - count b) (sort_key (\<lambda>d. - count d) ds)"
    by (simp add: sorted_wrt_map)
  then show ?thesis by (simp add: sorted_wrt_map)
qed

lemma sorted_wrt_take: "sorted_wrt P xs \<Longrightarrow> sorted_wrt P (take n xs)"
  by (metis append_take_drop_id sorted_wrt_append)

lemma getTrendingMovies_available:
  "available 1 db \<Longrightarrow>
     fst (getTrendingMovies db) = Some (take 5 (sort_key (\<lambda>d. - count d) (documents db)))"
proof -
  assume "available 1 db"
  then have "available (Suc 0) db" by simp
  from listDocuments_available [OF this, of "[Query_limit 5, Query_orderDesc_count]"]
  show ?thesis
    by (auto simp: getTrendingMovies_def select_trending split: prod.splits)
qed

text \<open>
  Claim C8. \<open>getTrendingMovies\<close> returns at most 5 documents, in descending order of
  their count: when the call of the store succeeds it returns such a list of documents of
  the store, and whatever list it returns has these two properties. Against the store of
  five distinct terms with the counts 3, 1, 5, 2, 4 it returns the counts 5, 4, 3, 2, 1.
\<close>

theorem getTrendingMovies_top5:
  "(available 1 db \<longrightarrow>
      (\<exists>ds. fst (getTrendingMovies db) = Some ds \<and> length ds \<le> 5 \<and>
            sorted_wrt (\<lambda>a b. b \<le> a) (map count ds) \<and> set ds \<subseteq> set (documents db)))
   \<and> (\<forall>ds. fst (getTrendingMovies db) = Some ds \<longrightarrow>
         length ds \<le> 5 \<and> sorted_wrt (\<lambda>a b. b \<le> a) (map count ds))
   \<and> map count (documents five_terms) = [3, 1, 5, 2, 4]
   \<and> distinct (map searchTerm_attr (documents five_terms))
   \<and> map_option (map count) (fst (getTrendingMovies five_terms)) = Some [5, 4, 3, 2, 1]"
proof (intro conjI allI impI)
  assume av: "available 1 db"
  let ?ds = "take 5 (sort_key (\<lambda>d. - count d) (documents db))"
  have "fst (getTrendingMovies db) = Some ?ds"
    using av by (rule getTrendingMovies_available)
  moreover have "length ?ds \<le> 5" by simp
  moreover have "sorted_wrt (\<lambda>a b. b \<le> a) (map count ?ds)"
    using sorted_desc_sort_key [of "documents db"]
    by (simp add: take_map [symmetric] sorted_wrt_take)
  moreover have "set ?ds \<subseteq> set (documents db)"
    using set_take_subset [of 5 "sort_key (\<lambda>d. - count d) (documents db)"] by simp
  ultimately show "\<exists>ds. fst (getTrendingMovies db) = Some ds \<and> length ds \<le> 5 \<and>
            sorted_wrt (\<lambda>a b. b \<le> a) (map count ds) \<and> set ds \<subseteq> set (documents db)"
    by blast
next
  fix ds
  assume some: "fst (getTrendingMovies db) = Some ds"
  then have ds: "ds = take 5 (sort_key (\<lambda>d. - count d) (documents (snd (request db))))"
    by (auto simp: getTrendingMovies_def listDocuments_def select_trending
        split: prod.splits if_splits)
  show "length ds \<le> 5" by (simp add: ds)
  show "sorted_wrt (\<lambda>a b. b \<le> a) (map count ds)"
    using sorted_desc_sort_key [of "documents (snd (request db))"]
    by (simp add: ds take_map [symmetric] sorted_wrt_take)
next
  show "map count (documents five_terms) = [3, 1, 5, 2, 4]"
    by (simp add: five_terms_def)
  show "distinct (map searchTerm_attr (documents five_terms))"
    by (simp add: five_terms_def)
  show "map_option (map count) (fst (getTrendingMovies five_terms)) = Some [5, 4, 3, 2, 1]"
    by (simp add: getTrendingMovies_def listDocuments_def request_def select_def five_terms_def)
qed

theorem getTrendingMovies_top5_witness:
  "available 1 five_terms \<and>
   (\<exists>ds. fst (getTrendingMovies five_terms) = Some ds \<and> length ds \<le> 5 \<and>
      sorted_wrt (\<lambda>a b. b \<le> a) (map count ds) \<and> set ds \<subseteq> set (documents five_terms) \<and>
      map count ds = [5, 4, 3, 2, 1])"
proof -
  have av: "available 1 five_terms" by (simp add: available_def five_terms_def)
  note all = getTrendingMovies_top5 [of five_terms]
  from all have "available 1 five_terms \<longrightarrow>
      (\<exists>ds. fst (getTrendingMovies five_terms) = Some ds \<and> length ds \<le> 5 \<and>
            sorted_wrt (\<lambda>a b. b \<le> a) (map count ds) \<and> set ds \<subseteq> set (documents five_terms))"
    by (rule conjunct1)
  with av obtain ds where ds: "fst (getTrendingMovies five_terms) = Some ds"
    and props: "length ds \<le> 5" "sorted_wrt (\<lambda>a b. b \<le> a) (map count ds)"
      "set ds \<subseteq> set (documents five_terms)"
    by blast
  from all have "map_option (map count) (fst (getTrendingMovies five_terms)) = Some [5, 4, 3, 2, 1]"
    by simp
  with ds have "map count ds = [5, 4, 3, 2, 1]" by simp
  with av ds props show ?thesis by simp
qed

section \<open>The request of a catalog query\<close>

lemmas setters =
  setMovieList_def setErrorMessage_def setIsLoading_def setTrendingMovies_def
  setSearchTerm_def setDebouncedSearchTerm_def suspend_def

lemma hexDigits_unescaped: "list_all (\<lambda>k. uriUnescaped (hexDigit k)) [0..<16]"
  by code_simp

lemma hexDigit_unescaped: "n < 16 \<Longrightarrow> uriUnescaped (hexDigit n)"
  using hexDigits_unescaped by (simp add: list_all_iff)

lemma of_char_less_256: "(of_char c :: nat) < 256"
  by (cases c) (simp add: of_char_def)

lemma percentEncode_safe: "x \<in> set (percentEncode c) \<Longrightarrow> uriUnescaped x \<or> x = CHR ''%''"
proof -
  have "(of_char c :: nat) div 16 < 16" using of_char_less_256 [of c] by arith
  moreover have "(of_char c :: nat) mod 16 < 16" by simp
  moreover assume "x \<in> set (percentEncode c)"
  ultimately show ?thesis
    by (auto simp: percentEncode_def intro: hexDigit_unescaped)
qed

lemma encodeURIComponent_safe:
  "x \<in> set (encodeURIComponent s) \<Longrightarrow> uriUnescaped x \<or> x = CHR ''%''"
  by (induction s) (auto simp: encodeURIComponent_def dest: percentEncode_safe split: if_splits)

lemma encode_dark_knight: "encodeURIComponent ''the dark knight'' = ''the%20dark%20knight''"
  by (simp add: encodeURIComponent_def uriUnescaped_def percentEncode_def hexDigit_def)

lemma requests_fetchMovies: "requests (fetchMovies fetch q w) = requests w @ [endpoint q]"
  by (simp add: fetchMovies_def fetchMovies_try_def setters Let_def
      split: fetch_outcome.splits option.splits list.splits prod.splits)

text \<open>
  Claim C5. For every query term: an empty term requests the discover endpoint
  \<open>{base}/discover/movie?sort_by=popularity.desc\<close>, and a term that is not empty
  requests the search endpoint \<open>{base}/search/movie?query=\<close> followed by the
  percent-encoded term, in which only unreserved characters and \<open>%\<close> occur;
  \<open>the dark knight\<close> is encoded as \<open>the%20dark%20knight\<close>. The endpoint is the one
  request that \<open>fetchMovies\<close> makes.
\<close>

theorem fetchMovies_endpoint:
  "endpoint [] = ''https://api.themoviedb.org/3/discover/movie?sort_by=popularity.desc''
   \<and> (q \<noteq> [] \<longrightarrow>
        endpoint q = ''https://api.themoviedb.org/3/search/movie?query='' @ encodeURIComponent q)
   \<and> (\<forall>x\<in>set (encodeURIComponent q). uriUnescaped x \<or> x = CHR ''%'')
   \<and> encodeURIComponent ''the dark knight'' = ''the%20dark%20knight''
   \<and> requests (fetchMovies fetch q w) = requests w @ [endpoint q]"
  by (simp add: endpoint_def API_BASE_URL_def encodeURIComponent_safe encode_dark_knight
      requests_fetchMovies)

theorem fetchMovies_endpoint_witness:
  "''the dark knight'' \<noteq> []
   \<and> endpoint ''the dark knight'' =
       ''https://api.themoviedb.org/3/search/movie?query=the%20dark%20knight''
   \<and> CHR ''2'' \<in> set (encodeURIComponent ''the dark knight'') \<and> uriUnescaped (CHR ''2'')
   \<and> requests (fetchMovies offline ''the dark knight'' initial_world) =
       [''https://api.themoviedb.org/3/search/movie?query=the%20dark%20knight'']"
  using fetchMovies_endpoint [of "''the dark knight''" offline initial_world]
  by (auto simp: initial_world_def)

section \<open>The outcomes of a catalog query\<close>

lemma fetchMovies_rejected:
  "fetch (endpoint q) = FetchRejected \<or> fetch (endpoint q) = ResponseNotOk
     \<or> fetch (endpoint q) = ResponseOk None \<Longrightarrow>
   ui (fetchMovies fetch q w) =
     (ui w)\<lparr>errorMessage := ''Error fetching movies. Please try again later.'',
            isLoading := False\<rparr>"
  by (auto simp: fetchMovies_def fetchMovies_try_def setters Let_def)

lemma fetchMovies_flagged:
  "fetch (endpoint q) = ResponseOk (Some data) \<Longrightarrow> Response data = Some ''False'' \<Longrightarrow>
   ui (fetchMovies fetch q w) =
     (ui w)\<lparr>errorMessage := or_else (Error data) ''Failed to fetch movies'',
            movieList := [], isLoading := False\<rparr>"
  by (simp add: fetchMovies_def fetchMovies_try_def setters Let_def)

lemma fetchMovies_no_results:
  "fetch (endpoint q) = ResponseOk (Some data) \<Longrightarrow> Response data \<noteq> Some ''False'' \<Longrightarrow>
   results data = None \<Longrightarrow> q \<noteq> [] \<Longrightarrow>
   ui (fetchMovies fetch q w) =
     (ui w)\<lparr>errorMessage := ''Error fetching movies. Please try again later.'',
            movieList := [], isLoading := False\<rparr>"
  by (simp add: fetchMovies_def fetchMovies_try_def setters Let_def)

lemma isLoading_fetchMovies: "\<not> isLoading (ui (fetchMovies fetch q w))"
  by (simp add: fetchMovies_def setters Let_def split: prod.splits)

lemma awaited_fetchMovies_try:
  "\<exists>snaps. awaited (snd (fetchMovies_try fetch q w)) = awaited w @ snaps \<and> snaps \<noteq> [] \<and>
      (isLoading (ui w) \<longrightarrow> (\<forall>s\<in>set snaps. isLoading s)) \<and>
      errorMessage (hd snaps) = errorMessage (ui w)"
  by (auto simp: fetchMovies_try_def setters Let_def
      split: fetch_outcome.splits option.splits list.splits)

lemma awaited_fetchMovies:
  "awaited (fetchMovies fetch q w) = awaited (snd (fetchMovies_try fetch q (setErrorMessage [] (setIsLoading True w))))"
  by (simp add: fetchMovies_def setters Let_def split: prod.splits option.splits)

text \<open>
  Claim C2, as amended. When the payload of a response carries the flag
  \<open>Response == "False"\<close>, the controller sets \<open>errorMessage\<close> to the message of the
  server, or to \<open>Failed to fetch movies\<close> when there is none, and clears the movie list.
  When the transport fails (the request is rejected, the status is not a success, or the
  body does not parse), the controller sets \<open>errorMessage\<close> to the generic message
  \<open>Error fetching movies. Please try again later.\<close>
\<close>

theorem fetchMovies_error_outcomes:
  "(fetch (endpoint q) = ResponseOk (Some data) \<and> Response data = Some ''False'' \<longrightarrow>
      errorMessage (ui (fetchMovies fetch q w)) = or_else (Error data) ''Failed to fetch movies'' \<and>
      movieList (ui (fetchMovies fetch q w)) = [])
   \<and> (fetch (endpoint q) = FetchRejected \<or> fetch (endpoint q) = ResponseNotOk \<or>
       fetch (endpoint q) = ResponseOk None \<longrightarrow>
      errorMessage (ui (fetchMovies fetch q w)) =
        ''Error fetching movies. Please try again later.'')"
  by (simp add: fetchMovies_flagged fetchMovies_rejected)

theorem fetchMovies_error_outcomes_witness:
  "answer limit_reached (endpoint ''dune'') = ResponseOk (Some limit_reached)
   \<and> Response limit_reached = Some ''False''
   \<and> errorMessage (ui (fetchMovies (answer limit_reached) ''dune'' showing_dune)) =
       ''Request limit reached''
   \<and> movieList (ui (fetchMovies (answer limit_reached) ''dune'' showing_dune)) = []
   \<and> server_error (endpoint ''dune'') = ResponseNotOk
   \<and> errorMessage (ui (fetchMovies server_error ''dune'' showing_dune)) =
       ''Error fetching movies. Please try again later.''"
proof -
  have flag: "answer limit_reached (endpoint ''dune'') = ResponseOk (Some limit_reached)
      \<and> Response limit_reached = Some ''False''"
    by (simp add: answer_def limit_reached_def)
  have down: "server_error (endpoint ''dune'') = ResponseNotOk"
    by (simp add: server_error_def)
  from flag fetchMovies_error_outcomes [of "answer limit_reached" "''dune''" limit_reached showing_dune]
  have "errorMessage (ui (fetchMovies (answer limit_reached) ''dune'' showing_dune)) =
          or_else (Error limit_reached) ''Failed to fetch movies''
      \<and> movieList (ui (fetchMovies (answer limit_reached) ''dune'' showing_dune)) = []"
    by blast
  moreover from down fetchMovies_error_outcomes [of server_error "''dune''" limit_reached showing_dune]
  have "errorMessage (ui (fetchMovies server_error ''dune'' showing_dune)) =
          ''Error fetching movies. Please try again later.''"
    by blast
  ultimately show ?thesis using flag down
    by (simp add: or_else_def limit_reached_def)
qed

text \<open>
  Claim C2, as stated, fails for a transport failure: with the movie list showing one
  movie, a response with a non-success status leaves the list as it was, and the message
  shown is not the message of the exception thrown (\<open>Failed to fetch movies\<close>).
\<close>

theorem fetchMovies_transport_failure_keeps_movies:
  "server_error (endpoint ''dune'') = ResponseNotOk
   \<and> movieList (ui showing_dune) = [dune]
   \<and> movieList (ui (fetchMovies server_error ''dune'' showing_dune)) = [dune]
   \<and> movieList (ui (fetchMovies server_error ''dune'' showing_dune)) \<noteq> []
   \<and> errorMessage (ui (fetchMovies server_error ''dune'' showing_dune)) \<noteq>
       ''Failed to fetch movies''"
  by (simp add: fetchMovies_rejected server_error_def showing_dune_def setMovieList_def
      initial_world_def)

text \<open>
  Claim C4. For every catalog response whose payload carries the flag
  \<open>Response == "False"\<close>, the controller sets \<open>errorMessage\<close> to the \<open>Error\<close> message of
  the server when there is one (a string that is not empty), and to
  \<open>Failed to fetch movies\<close> otherwise; it sets the movie list to the empty list and ends
  with \<open>isLoading\<close> false.
\<close>

theorem fetchMovies_application_error:
  assumes "fetch (endpoint q) = ResponseOk (Some data)" and "Response data = Some ''False''"
  shows "errorMessage (ui (fetchMovies fetch q w)) =
           (case Error data of
              None \<Rightarrow> ''Failed to fetch movies''
            | Some e \<Rightarrow> if e \<noteq> [] then e else ''Failed to fetch movies'')
       \<and> movieList (ui (fetchMovies fetch q w)) = []
       \<and> \<not> isLoading (ui (fetchMovies fetch q w))"
  using assms by (simp add: fetchMovies_flagged or_else_def)

theorem fetchMovies_application_error_witness:
  "answer limit_reached (endpoint []) = ResponseOk (Some limit_reached)
   \<and> Response limit_reached = Some ''False''
   \<and> errorMessage (ui (fetchMovies (answer limit_reached) [] showing_dune)) =
       ''Request limit reached''
   \<and> movieList (ui (fetchMovies (answer limit_reached) [] showing_dune)) = []
   \<and> \<not> isLoading (ui (fetchMovies (answer limit_reached) [] showing_dune))"
proof -
  have a: "answer limit_reached (endpoint []) = ResponseOk (Some limit_reached)"
    by (simp add: answer_def)
  have b: "Response limit_reached = Some ''False''"
    by (simp add: limit_reached_def)
  from fetchMovies_application_error [of "answer limit_reached" "[]" limit_reached showing_dune, OF a b] a b
  show ?thesis by (simp add: limit_reached_def)
qed

text \<open>
  Claim C10. For every successful response (the status is a success and the payload has
  no flag \<open>Response == "False"\<close>) whose payload has no \<open>results\<close> field, when the search
  term is not empty the controller ends with the movie list empty and \<open>errorMessage\<close>
  set to \<open>Error fetching movies. Please try again later.\<close>: \<open>data.results.length\<close>
  throws after the list was set, and the \<open>catch\<close> clause handles it. The page then shows
  the error message, not an empty list of results, and \<open>isLoading\<close> ends false.
\<close>

theorem fetchMovies_missing_results:
  assumes "q \<noteq> []" and "fetch (endpoint q) = ResponseOk (Some data)"
    and "Response data \<noteq> Some ''False''" and "results data = None"
  shows "movieList (ui (fetchMovies fetch q w)) = []
       \<and> errorMessage (ui (fetchMovies fetch q w)) =
           ''Error fetching movies. Please try again later.''
       \<and> \<not> isLoading (ui (fetchMovies fetch q w))
       \<and> all_movies_view (ui (fetchMovies fetch q w)) =
           ErrorText ''Error fetching movies. Please try again later.''"
  using assms by (simp add: fetchMovies_no_results all_movies_view_def)

theorem fetchMovies_missing_results_witness:
  "''dune'' \<noteq> []
   \<and> answer without_results (endpoint ''dune'') = ResponseOk (Some without_results)
   \<and> Response without_results \<noteq> Some ''False''
   \<and> results without_results = None
   \<and> movieList (ui (fetchMovies (answer without_results) ''dune'' showing_dune)) = []
   \<and> errorMessage (ui (fetchMovies (answer without_results) ''dune'' showing_dune)) =
       ''Error fetching movies. Please try again later.''
   \<and> \<not> isLoading (ui (fetchMovies (answer without_results) ''dune'' showing_dune))
   \<and> all_movies_view (ui (fetchMovies (answer without_results) ''dune'' showing_dune)) =
       ErrorText ''Error fetching movies. Please try again later.''"
proof -
  have a: "''dune'' \<noteq> []" by simp
  have b: "answer without_results (endpoint ''dune'') = ResponseOk (Some without_results)"
    by (simp add: answer_def)
  have c: "Response without_results \<noteq> Some ''False''" and d: "results without_results = None"
    by (simp_all add: without_results_def)
  from fetchMovies_missing_results [of "''dune''" "answer without_results" without_results showing_dune, OF a b c d] a b c d
  show ?thesis by simp
qed

section \<open>The loading flag\<close>

lemma fetchMovies_try_answered:
  "fetchMovies_try fetch q w =
     fetchMovies_answered fetch q (suspend (w\<lparr>requests := requests w @ [endpoint q]\<rparr>))"
  by (simp add: fetchMovies_try_def fetchMovies_answered_def Let_def)

lemma fetchMovies_split:
  "fetchMovies fetch q w = fetchMovies_resume fetch q (fetchMovies_begin q w)"
  by (simp add: fetchMovies_def fetchMovies_resume_def fetchMovies_begin_def
      fetchMovies_try_answered Let_def)

lemma isLoading_begin: "isLoading (ui (fetchMovies_begin q w))"
  by (simp add: fetchMovies_begin_def setters Let_def)

lemma isLoading_resume: "\<not> isLoading (ui (fetchMovies_resume fetch q w))"
  by (simp add: fetchMovies_resume_def setters Let_def split: prod.splits)

text \<open>
  Claim C6, as amended. For every execution of a catalog query, whatever its outcome: the
  execution sets \<open>isLoading\<close> true when it begins and false when it completes, in
  whatever state it begins and resumes; and when it runs with no other execution
  overlapping it, \<open>isLoading\<close> is true during the query and false after it: the execution
  waits at least once, at each of its waits the component state has \<open>isLoading\<close> true
  (and at the first one \<open>errorMessage\<close> is cleared), and the state it ends with has
  \<open>isLoading\<close> false.
\<close>

theorem fetchMovies_isLoading:
  "isLoading (ui (fetchMovies_begin q w))
   \<and> \<not> isLoading (ui (fetchMovies_resume fetch q w'))
   \<and> fetchMovies fetch q w = fetchMovies_resume fetch q (fetchMovies_begin q w)
   \<and> (\<exists>snaps. awaited (fetchMovies fetch q w) = awaited w @ snaps \<and> snaps \<noteq> [] \<and>
        (\<forall>s\<in>set snaps. isLoading s) \<and> errorMessage (hd snaps) = [] \<and>
        \<not> isLoading (ui (fetchMovies fetch q w)))"
proof -
  have "\<exists>snaps. awaited (fetchMovies fetch q w) = awaited w @ snaps \<and> snaps \<noteq> [] \<and>
      (\<forall>s\<in>set snaps. isLoading s) \<and> errorMessage (hd snaps) = [] \<and>
      \<not> isLoading (ui (fetchMovies fetch q w))"
    using awaited_fetchMovies_try [of fetch q "setErrorMessage [] (setIsLoading True w)"]
    by (auto simp: awaited_fetchMovies isLoading_fetchMovies setters)
  then show ?thesis
    by (simp add: isLoading_begin isLoading_resume fetchMovies_split [symmetric])
qed

theorem fetchMovies_isLoading_witness:
  "awaited (fetchMovies (answer found_dune) ''dune'' initial_world) =
     [initial_ui\<lparr>isLoading := True\<rparr>, initial_ui\<lparr>isLoading := True\<rparr>,
      initial_ui\<lparr>isLoading := True, movieList := [dune]\<rparr>]
   \<and> list_all isLoading (awaited (fetchMovies (answer found_dune) ''dune'' initial_world))
   \<and> \<not> isLoading (ui (fetchMovies (answer found_dune) ''dune'' initial_world))"
proof -
  obtain snaps where
    snaps: "awaited (fetchMovies (answer found_dune) ''dune'' initial_world) =
              awaited initial_world @ snaps"
    and loading: "\<forall>s\<in>set snaps. isLoading s"
    and ended: "\<not> isLoading (ui (fetchMovies (answer found_dune) ''dune'' initial_world))"
    using fetchMovies_isLoading [of "''dune''" initial_world "answer found_dune"] by blast
  from snaps loading
  have "list_all isLoading (awaited (fetchMovies (answer found_dune) ''dune'' initial_world))"
    by (simp add: initial_world_def list_all_iff)
  moreover have "awaited (fetchMovies (answer found_dune) ''dune'' initial_world) =
     [initial_ui\<lparr>isLoading := True\<rparr>, initial_ui\<lparr>isLoading := True\<rparr>,
      initial_ui\<lparr>isLoading := True, movieList := [dune]\<rparr>]"
    by (simp add: fetchMovies_def fetchMovies_try_def setters Let_def answer_def found_dune_def
        initial_world_def initial_ui_def)
  ultimately show ?thesis using ended by simp
qed

text \<open>
  Claim C6, as stated, fails for executions that overlap: a query for \<open>a\<close> begins, a
  query for \<open>ab\<close> begins while the first one waits, and when the first one completes
  its \<open>finally\<close> clause sets \<open>isLoading\<close> false although the query for \<open>ab\<close> has been
  requested and has not completed.
\<close>

theorem fetchMovies_overlap_not_loading:
  "isLoading (ui (fetchMovies_begin ''ab'' (fetchMovies_begin ''a'' initial_world)))
   \<and> requests (fetchMovies_resume offline ''a''
         (fetchMovies_begin ''ab'' (fetchMovies_begin ''a'' initial_world))) =
       [endpoint ''a'', endpoint ''ab'']
   \<and> \<not> isLoading (ui (fetchMovies_resume offline ''a''
         (fetchMovies_begin ''ab'' (fetchMovies_begin ''a'' initial_world))))"
  by (simp add: fetchMovies_begin_def fetchMovies_resume_def fetchMovies_answered_def
      offline_def setters Let_def initial_world_def)

section \<open>Recording a search\<close>

lemma recorded_fetchMovies:
  "recorded (fetchMovies fetch q w) = recorded (snd (fetchMovies_try fetch q (setErrorMessage [] (setIsLoading True w))))"
  by (simp add: fetchMovies_def setters Let_def split: prod.splits option.splits)

lemma recorded_fetchMovies_try:
  "recorded (snd (fetchMovies_try fetch q w)) =
     (case fetch (endpoint q) of
        ResponseOk (Some data) \<Rightarrow>
          (if q \<noteq> [] \<and> Response data \<noteq> Some ''False'' then
             (case results data of Some (m # ms) \<Rightarrow> recorded w @ [(q, m)] | _ \<Rightarrow> recorded w)
           else recorded w)
      | _ \<Rightarrow> recorded w)"
  by (simp add: fetchMovies_try_def setters Let_def
      split: fetch_outcome.splits option.splits list.splits)

lemma store_fetchMovies:
  "store (fetchMovies fetch q w) = store (snd (fetchMovies_try fetch q (setErrorMessage [] (setIsLoading True w))))"
  by (simp add: fetchMovies_def setters Let_def split: prod.splits option.splits)

lemma store_fetchMovies_try:
  "store (snd (fetchMovies_try fetch q w)) =
     (case fetch (endpoint q) of
        ResponseOk (Some data) \<Rightarrow>
          (if q \<noteq> [] \<and> Response data \<noteq> Some ''False'' then
             (case results data of
                Some (m # ms) \<Rightarrow> updateSearchCount q m (store w)
              | _ \<Rightarrow> store w)
           else store w)
      | _ \<Rightarrow> store w)"
  by (simp add: fetchMovies_try_def setters Let_def
      split: fetch_outcome.splits option.splits list.splits)

text \<open>
  Claim C7. The controller calls \<open>updateSearchCount\<close> if and only if the settled search
  term, with which \<open>fetchMovies\<close> is called, is not empty and the query returned a result
  list that is not empty (a response with a success status whose payload has no flag
  \<open>Response == "False"\<close>). The call then has the settled term and the first movie of the
  list, which is also the list the controller shows: the store the execution leaves is
  the one \<open>updateSearchCount\<close> makes of the store before, for this term and this movie,
  and the call is the one call made. In every other case no call is made and the store
  is left as it was.
\<close>

theorem fetchMovies_records:
  "(q \<noteq> [] \<and> fetch (endpoint q) = ResponseOk (Some data) \<and> Response data \<noteq> Some ''False'' \<and>
      results data = Some (m # ms) \<longrightarrow>
      store (fetchMovies fetch q w) = updateSearchCount q m (store w) \<and>
      recorded (fetchMovies fetch q w) = recorded w @ [(q, m)] \<and>
      movieList (ui (fetchMovies fetch q w)) = m # ms)
   \<and> (\<not> (q \<noteq> [] \<and> (\<exists>data m ms. fetch (endpoint q) = ResponseOk (Some data) \<and>
            Response data \<noteq> Some ''False'' \<and> results data = Some (m # ms))) \<longrightarrow>
      store (fetchMovies fetch q w) = store w \<and>
      recorded (fetchMovies fetch q w) = recorded w)"
proof (intro conjI impI)
  assume a: "q \<noteq> [] \<and> fetch (endpoint q) = ResponseOk (Some data) \<and>
     Response data \<noteq> Some ''False'' \<and> results data = Some (m # ms)"
  then show "store (fetchMovies fetch q w) = updateSearchCount q m (store w)"
    by (simp add: store_fetchMovies store_fetchMovies_try setters)
  from a show "recorded (fetchMovies fetch q w) = recorded w @ [(q, m)]"
    by (simp add: recorded_fetchMovies recorded_fetchMovies_try setters)
  from a show "movieList (ui (fetchMovies fetch q w)) = m # ms"
    by (simp add: fetchMovies_def fetchMovies_try_def setters Let_def)
next
  assume n: "\<not> (q \<noteq> [] \<and> (\<exists>data m ms. fetch (endpoint q) = ResponseOk (Some data) \<and>
            Response data \<noteq> Some ''False'' \<and> results data = Some (m # ms)))"
  then show "store (fetchMovies fetch q w) = store w"
    by (auto simp: store_fetchMovies store_fetchMovies_try setters
        split: fetch_outcome.splits option.splits list.splits)
  from n show "recorded (fetchMovies fetch q w) = recorded w"
    by (auto simp: recorded_fetchMovies recorded_fetchMovies_try setters
        split: fetch_outcome.splits option.splits list.splits)
qed

theorem fetchMovies_records_witness:
  "''dune'' \<noteq> []
   \<and> answer found_dune (endpoint ''dune'') = ResponseOk (Some found_dune)
   \<and> Response found_dune \<noteq> Some ''False''
   \<and> results found_dune = Some [dune]
   \<and> recorded (fetchMovies (answer found_dune) ''dune'' initial_world) = [(''dune'', dune)]
   \<and> movieList (ui (fetchMovies (answer found_dune) ''dune'' initial_world)) = [dune]
   \<and> documents (store (fetchMovies (answer found_dune) ''dune'' initial_world)) =
       [\<lparr>dollar_id = 1, searchTerm_attr = ''dune'', count = 1, movie_id = 438631,
         poster_url = ''https://image.tmdb.org/t/p/w500/abc.jpg''\<rparr>]
   \<and> recorded (fetchMovies (answer found_dune) [] initial_world) = []
   \<and> documents (store (fetchMovies (answer found_dune) [] initial_world)) = []"
proof -
  have a: "''dune'' \<noteq> [] \<and> answer found_dune (endpoint ''dune'') = ResponseOk (Some found_dune)
      \<and> Response found_dune \<noteq> Some ''False'' \<and> results found_dune = Some (dune # [])"
    by (simp add: answer_def found_dune_def)
  with fetchMovies_records [of "''dune''" "answer found_dune" found_dune dune "[]" initial_world]
  have "store (fetchMovies (answer found_dune) ''dune'' initial_world) =
          updateSearchCount ''dune'' dune (store initial_world)
      \<and> recorded (fetchMovies (answer found_dune) ''dune'' initial_world) =
          recorded initial_world @ [(''dune'', dune)]
      \<and> movieList (ui (fetchMovies (answer found_dune) ''dune'' initial_world)) = [dune]"
    by blast
  moreover have "store (fetchMovies (answer found_dune) [] initial_world) = store initial_world
      \<and> recorded (fetchMovies (answer found_dune) [] initial_world) = recorded initial_world"
    using fetchMovies_records [of "[]" "answer found_dune" found_dune dune "[]" initial_world]
    by simp
  moreover have "store initial_world = empty_store" and "recorded initial_world = []"
    and "documents empty_store = []"
    by (simp_all add: initial_world_def empty_store_def)
  ultimately show ?thesis using a by (simp add: dune_once)
qed

section \<open>Loading the trending list\<close>

text \<open>
  Claim C3 asks that a failure of the trending load leaves the trending state at its
  previous value and does not crash the controller. The code does otherwise when the store
  call fails: \<open>getTrendingMovies\<close> returns \<open>undefined\<close>, \<open>loadTrendingMovies\<close> stores it in
  \<open>trendingMovies\<close> over the previous value (the empty list), and the next render throws a
  TypeError at \<open>trendingMovies.length\<close>.
\<close>

theorem loadTrendingMovies_failure_crashes:
  "\<not> available 1 (store blackout)
   \<and> trendingMovies (ui blackout) = Some []
   \<and> render (ui blackout) =
       Inr \<lparr>trending_section = None, all_movies_section = MovieCards []\<rparr>
   \<and> trendingMovies (ui (loadTrendingMovies blackout)) = None
   \<and> render (ui (loadTrendingMovies blackout)) = Inl TypeError"
  by (simp add: blackout_def initial_world_def initial_ui_def available_def render_def
      all_movies_view_def loadTrendingMovies_def getTrendingMovies_def listDocuments_def request_def
      setTrendingMovies_def)

section \<open>Debouncing\<close>

lemma debounced_fetchMovies:
  "debouncedSearchTerm (ui (fetchMovies fetch q w)) = debouncedSearchTerm (ui w)"
  by (simp add: fetchMovies_def fetchMovies_try_def setters Let_def
      split: fetch_outcome.splits option.splits list.splits prod.splits)

lemma elapse_idle: "\<forall>d. timer r = Some d \<longrightarrow> now < d \<Longrightarrow> elapse fetch now r = r"
  by (auto simp: elapse_def split: option.splits)

lemma onChange_idle:
  "\<forall>d. timer r = Some d \<longrightarrow> now < d \<Longrightarrow>
     onChange fetch now v r =
       r\<lparr>page := setSearchTerm v (page r), timer := Some (now + quiet_window)\<rparr>"
  by (simp add: onChange_def elapse_idle Let_def)

lemma typing_Cons:
  "typing fetch (c # cs) r = typing fetch cs (onChange fetch (fst c) (snd c) r)"
  by (cases c) (simp add: typing_def)

lemma typing_rapid:
  "rapid cs \<Longrightarrow> cs \<noteq> [] \<Longrightarrow> \<forall>d. timer r = Some d \<longrightarrow> fst (hd cs) < d \<Longrightarrow>
     typing fetch cs r =
       r\<lparr>page := setSearchTerm (snd (last cs)) (page r),
         timer := Some (fst (last cs) + quiet_window)\<rparr>"
proof (induction cs arbitrary: r)
  case Nil
  then show ?case by simp
next
  case (Cons c cs)
  obtain t v where c: "c = (t, v)" by (cases c)
  let ?r = "r\<lparr>page := setSearchTerm v (page r), timer := Some (t + quiet_window)\<rparr>"
  from Cons.prems(3) c have step: "onChange fetch t v r = ?r"
    by (simp add: onChange_idle)
  show ?case
  proof (cases cs)
    case Nil
    with step c show ?thesis by (simp add: typing_Cons typing_def)
  next
    case (Cons c2 cs2)
    obtain t2 v2 where c2: "c2 = (t2, v2)" by (cases c2)
    from Cons.prems(1) c c2 Cons have r2: "rapid cs" and near: "t2 < t + quiet_window"
      by simp_all
    have "typing fetch cs ?r =
       ?r\<lparr>page := setSearchTerm (snd (last cs)) (page ?r),
          timer := Some (fst (last cs) + quiet_window)\<rparr>"
      using r2 near Cons c2 by (intro Cons.IH) simp_all
    with step c Cons show ?thesis
      by (simp add: typing_Cons setSearchTerm_def)
  qed
qed

lemma rapid_last: "rapid cs \<Longrightarrow> \<forall>c\<in>set cs. fst c \<le> fst (last cs)"
proof (induction cs rule: rapid.induct)
  case (1 t1 v1 t2 v2 cs)
  then have "\<forall>c\<in>set ((t2, v2) # cs). fst c \<le> fst (last ((t2, v2) # cs))" and "t1 \<le> t2"
    by simp_all
  then show ?case by fastforce
qed simp_all

lemma rapid_prefix:
  "rapid (p @ c # rest) \<Longrightarrow> p \<noteq> [] \<Longrightarrow> rapid p \<and> fst c < fst (last p) + quiet_window"
proof (induction p)
  case Nil
  then show ?case by simp
next
  case (Cons a p)
  obtain t v where a: "a = (t, v)" by (cases a)
  obtain t' v' where c: "c = (t', v')" by (cases c)
  show ?case
  proof (cases p)
    case Nil
    with Cons.prems a c show ?thesis by simp
  next
    case (Cons b p')
    obtain t2 v2 where b: "b = (t2, v2)" by (cases b)
    from Cons.prems(1) a b Cons have "rapid (p @ c # rest)" and "t \<le> t2" and "t2 < t + quiet_window"
      by simp_all
    with Cons.IH Cons a b show ?thesis by simp
  qed
qed

lemma takeWhile_all: "rapid cs \<Longrightarrow> cs \<noteq> [] \<Longrightarrow> fst (last cs) \<le> T \<Longrightarrow>
  takeWhile (\<lambda>(now, v). now \<le> T) cs = cs"
proof -
  assume "rapid cs" and "cs \<noteq> []" and le: "fst (last cs) \<le> T"
  then have "\<forall>c\<in>set cs. fst c \<le> T"
    using rapid_last [of cs] by fastforce
  then have "\<forall>c\<in>set cs. (\<lambda>(now, v). now \<le> T) c" by auto
  then show ?thesis by (simp add: takeWhile_eq_all_conv)
qed

lemma at_time_early:
  assumes rapid: "rapid cs" and idle: "timer r = None"
    and early: "cs \<noteq> [] \<longrightarrow> T < fst (last cs) + quiet_window"
  shows "debouncedSearchTerm (ui (page (at_time fetch T cs r))) = debouncedSearchTerm (ui (page r))
       \<and> requests (page (at_time fetch T cs r)) = requests (page r)"
proof -
  let ?P = "\<lambda>(now, v). now \<le> T"
  let ?p = "takeWhile ?P cs"
  show ?thesis
  proof (cases "?p = []")
    case True
    with idle show ?thesis by (simp add: at_time_def typing_def elapse_def)
  next
    case False
    have cs: "cs = ?p @ dropWhile ?P cs" by simp
    have "rapid ?p \<and> T < fst (last ?p) + quiet_window"
    proof (cases "dropWhile ?P cs")
      case Nil
      then have eq: "?p = cs" by (metis append_Nil2 takeWhile_dropWhile_id)
      from False have "cs \<noteq> []" by auto
      with rapid early show ?thesis unfolding eq by simp
    next
      case (Cons c rest)
      then have "\<not> ?P c" using hd_dropWhile [of ?P cs] by (metis list.sel(1) list.distinct(1))
      then have late: "T < fst c" by (cases c) simp
      from cs Cons have "cs = ?p @ c # rest" by simp
      with rapid have "rapid (?p @ c # rest)" by simp
      from rapid_prefix [OF this False] late show ?thesis by simp
    qed
    then have rp: "rapid ?p" and lt: "T < fst (last ?p) + quiet_window" by simp_all
    have "typing fetch ?p r =
       r\<lparr>page := setSearchTerm (snd (last ?p)) (page r),
         timer := Some (fst (last ?p) + quiet_window)\<rparr>"
      using rp False idle by (intro typing_rapid) simp_all
    with lt show ?thesis
      by (simp add: at_time_def elapse_def setSearchTerm_def)
  qed
qed

lemma at_time_late:
  assumes rapid: "rapid cs" and ne: "cs \<noteq> []" and idle: "timer r = None"
    and late: "fst (last cs) + quiet_window \<le> T"
  shows "debouncedSearchTerm (ui (page (at_time fetch T cs r))) = snd (last cs)
       \<and> requests (page (at_time fetch T cs r)) =
           requests (page r) @
             (if snd (last cs) \<noteq> debouncedSearchTerm (ui (page r))
              then [endpoint (snd (last cs))] else [])"
proof -
  from late have "fst (last cs) \<le> T" by simp
  with rapid ne have all: "takeWhile (\<lambda>(now, v). now \<le> T) cs = cs" by (rule takeWhile_all)
  have "typing fetch cs r =
       r\<lparr>page := setSearchTerm (snd (last cs)) (page r),
         timer := Some (fst (last cs) + quiet_window)\<rparr>"
    using rapid ne idle by (intro typing_rapid) simp_all
  moreover have "at_time fetch T cs r = elapse fetch T (typing fetch cs r)"
    unfolding at_time_def all ..
  ultimately show ?thesis using late
    by (simp add: elapse_def propagate_def Let_def setSearchTerm_def
        setDebouncedSearchTerm_def requests_fetchMovies debounced_fetchMovies)
qed

text \<open>
  Claim C9, as amended. For every sequence of changes of the search input in which each
  change comes strictly within the quiet window of 500 units of the one before, starting
  with no propagation pending: at every time before the quiet window of the last change
  has elapsed the settled term is still the one from before the changes and no catalog
  query has been issued, so no intermediate value is ever propagated; from the time the
  quiet window of the last change has elapsed the settled term is the final value, and
  by then at most one catalog query has been issued: exactly one, for the full final term,
  when the final value differs from the term settled before, and none when it is equal
  to it.
\<close>

theorem debounce_final_only:
  assumes "rapid cs" and "cs \<noteq> []" and "timer r = None"
  shows "(T < fst (last cs) + quiet_window \<longrightarrow>
            debouncedSearchTerm (ui (page (at_time fetch T cs r))) =
              debouncedSearchTerm (ui (page r)) \<and>
            requests (page (at_time fetch T cs r)) = requests (page r))
       \<and> (fst (last cs) + quiet_window \<le> T \<longrightarrow>
            debouncedSearchTerm (ui (page (at_time fetch T cs r))) = snd (last cs) \<and>
            requests (page (at_time fetch T cs r)) =
              requests (page r) @
                (if snd (last cs) \<noteq> debouncedSearchTerm (ui (page r))
                 then [endpoint (snd (last cs))] else []))"
  using assms at_time_early [of cs r T fetch] at_time_late [of cs r T fetch] by blast

theorem debounce_final_only_witness:
  "rapid inception_typed \<and> inception_typed \<noteq> [] \<and> timer quiescent = None
   \<and> quiet_window = 500 \<and> last inception_typed = (1600, ''inception'')
   \<and> debouncedSearchTerm (ui (page (at_time offline 2099 inception_typed quiescent))) = []
   \<and> requests (page (at_time offline 2099 inception_typed quiescent)) = []
   \<and> debouncedSearchTerm (ui (page (at_time offline 2100 inception_typed quiescent))) =
       ''inception''
   \<and> requests (page (at_time offline 2100 inception_typed quiescent)) =
       [''https://api.themoviedb.org/3/search/movie?query=inception'']"
proof -
  have a: "rapid inception_typed" and b: "inception_typed \<noteq> []"
    and l: "last inception_typed = (1600, ''inception'')"
    by (simp_all add: inception_typed_def quiet_window_def)
  have c: "timer quiescent = None" and s: "debouncedSearchTerm (ui (page quiescent)) = []"
    and r: "requests (page quiescent) = []"
    by (simp_all add: quiescent_def initial_world_def initial_ui_def)
  have e: "endpoint ''inception'' = ''https://api.themoviedb.org/3/search/movie?query=inception''"
    by (simp add: endpoint_def API_BASE_URL_def encodeURIComponent_def uriUnescaped_def)
  from debounce_final_only [OF a b c, of 2099 offline] l s r
  have early: "debouncedSearchTerm (ui (page (at_time offline 2099 inception_typed quiescent))) = []
      \<and> requests (page (at_time offline 2099 inception_typed quiescent)) = []"
    by (simp add: quiet_window_def)
  from debounce_final_only [OF a b c, of 2100 offline] l s r e
  have late: "debouncedSearchTerm (ui (page (at_time offline 2100 inception_typed quiescent))) =
        ''inception''
      \<and> requests (page (at_time offline 2100 inception_typed quiescent)) =
        [''https://api.themoviedb.org/3/search/movie?query=inception'']"
    by (simp add: quiet_window_def)
  from a b c l early late show ?thesis by (simp add: quiet_window_def)
qed

text \<open>
  Claim C9, as stated, fails when the final value is the term already settled: a
  character typed and erased within the quiet window issues no catalog query at all.
\<close>

theorem debounce_typed_and_erased_no_query:
  "rapid typed_and_erased \<and> typed_and_erased \<noteq> [] \<and> timer quiescent = None
   \<and> last typed_and_erased = (100, [])
   \<and> debouncedSearchTerm (ui (page (at_time offline 600 typed_and_erased quiescent))) = []
   \<and> requests (page (at_time offline 600 typed_and_erased quiescent)) = []
   \<and> requests (page (at_time offline 600 typed_and_erased quiescent)) \<noteq> [endpoint []]"
  by (simp add: typed_and_erased_def quiescent_def initial_world_def initial_ui_def
      quiet_window_def at_time_def typing_def onChange_def elapse_def propagate_def
      setSearchTerm_def setDebouncedSearchTerm_def Let_def)

end
